theory Spec2Isabelle
  imports Complex_Main
begin

section \<open>Strings and paths\<close>

text \<open>
  JavaScript strings are modelled as Isabelle strings: lists of code units below 256.
  Buffers are lists of bytes, written with the same type.
\<close>

type_synonym bytes = string

text \<open>
  \<open>String.prototype.toLowerCase\<close> on code units below 256: the capital letters of ASCII
  and those of Latin-1 (\<open>U+00C0\<close> to \<open>U+00DE\<close> without the multiplication sign) move up by 32.
\<close>

definition isUpperCase :: "nat \<Rightarrow> bool" where
  "isUpperCase n = ((65 \<le> n \<and> n \<le> 90) \<or> (192 \<le> n \<and> n \<le> 222 \<and> n \<noteq> 215))"

definition toLowerCase :: "string \<Rightarrow> string" where
  "toLowerCase s =
     map (\<lambda>c. if isUpperCase (of_char c) then char_of ((of_char c :: nat) + 32) else c) s"

definition startsWith :: "string \<Rightarrow> string \<Rightarrow> bool" where
  "startsWith s p = (take (length p) s = p)"

definition endsWith :: "string \<Rightarrow> string \<Rightarrow> bool" where
  "endsWith s p = startsWith (rev s) (rev p)"

fun includes_str :: "string \<Rightarrow> string \<Rightarrow> bool" where
  "includes_str [] p = (p = [])"
| "includes_str (c # cs) p = (startsWith (c # cs) p \<or> includes_str cs p)"

text \<open>\<open>Array.prototype.join\<close>.\<close>

fun join :: "string \<Rightarrow> string list \<Rightarrow> string" where
  "join sep [] = []"
| "join sep [x] = x"
| "join sep (x # y # ys) = x @ sep @ join sep (y # ys)"

text \<open>
  \<open>String.prototype.trim\<close> removes white space and line terminators at both ends; among
  the code units below 256 these are TAB, LF, VT, FF, CR, SPACE and NBSP.
\<close>

definition isWhiteSpace :: "char \<Rightarrow> bool" where
  "isWhiteSpace c = ((of_char c :: nat) \<in> {9, 10, 11, 12, 13, 32, 160})"

definition trim :: "string \<Rightarrow> string" where
  "trim s = rev (dropWhile isWhiteSpace (rev (dropWhile isWhiteSpace s)))"

text \<open>A text is blank when it is empty or has white space only.\<close>

definition isBlank :: "string \<Rightarrow> bool" where
  "isBlank s = list_all isWhiteSpace s"

text \<open>
  \<open>path.basename\<close> and \<open>path.extname\<close> of Node's POSIX \<open>path\<close> module. Trailing slashes
  are ignored; the extension runs from the last dot of the last path component, and is
  empty when there is no dot, when the only dot is the component's first character, or
  when the component is \<open>..\<close>.
\<close>

definition basename :: "string \<Rightarrow> string" where
  "basename p =
     rev (takeWhile (\<lambda>c. c \<noteq> CHR ''/'') (dropWhile (\<lambda>c. c = CHR ''/'') (rev p)))"

definition extname :: "string \<Rightarrow> string" where
  "extname p =
     (let b = basename p;
          suffix = rev (takeWhile (\<lambda>c. c \<noteq> CHR ''.'') (rev b))
      in if list_all (\<lambda>c. c \<noteq> CHR ''.'') b then []
         else if Suc (length suffix) = length b then []
         else if b = ''..'' then []
         else CHR ''.'' # suffix)"

section \<open>Errors\<close>

text \<open>
  Every \<open>throw\<close> of the code is a value of this type. The constructors carry the names
  of the specification's taxonomy where it has one:
  \<^item> \<open>InvalidUrl\<close>: the \<open>TypeError\<close> of the \<open>URL\<close> constructor;
  \<^item> \<open>InvalidLocator\<close>: \<open>Error('Could not determine S3 key from URL.')\<close>;
  \<^item> \<open>StorageNotConfigured\<close>: \<open>Error('S3 service not configured for getObject operation.')\<close>;
  \<^item> \<open>StorageFailure\<close>: a rejection of the S3 client;
  \<^item> \<open>EmptyBody key\<close>: \<open>Error(`S3 object Body is empty for key: ${key}`)\<close>;
  \<^item> \<open>ReadFailure\<close>: a rejection of \<open>fs.readFile\<close>;
  \<^item> \<open>UnsupportedFormat ext\<close>: \<open>Error(`Unsupported file type: ${fileExtension}`)\<close>;
  \<^item> \<open>JsonSyntaxError\<close>: the \<open>SyntaxError\<close> of \<open>JSON.parse\<close>, where it is not caught;
  \<^item> \<open>EmptyDocument\<close>: \<open>Error('Parsed content and metadata are empty.')\<close>, which only the
    earlier revision of the orchestrator, the one that parses a temporary file, throws;
  \<^item> \<open>ProviderFailure\<close>: an error of the embedding provider;
  \<^item> \<open>EmbeddingFailed id\<close>: \<open>Error(`Failed to generate embeddings for document: ${id}`)\<close>;
  \<^item> \<open>UpsertFailed\<close>: a rejection of the index's \<open>upsert\<close>.
\<close>

datatype error =
    InvalidUrl
  | InvalidLocator
  | StorageNotConfigured
  | StorageFailure string
  | EmptyBody string
  | ReadFailure string
  | UnsupportedFormat string
  | JsonSyntaxError string
  | EmptyDocument
  | ProviderFailure string
  | EmbeddingFailed string
  | UpsertFailed string

section \<open>Metadata\<close>

text \<open>
  \<open>Record<string, any>\<close>: an association list in insertion order. The values the code
  stores are strings, counts, the CSV header (\<open>undefined\<close> when the parser gives none)
  and values of the libraries (\<open>'j\<close>: the PDF information block, the CSV errors).
\<close>

datatype 'j mval =
    MString string
  | MNumber nat
  | MFields "string list option"
  | MValue 'j
  | MValues "'j list"

type_synonym 'j metadata = "(string \<times> 'j mval) list"

text \<open>\<open>m[k] = v\<close>: an existing key keeps its place, a new one goes last.\<close>

fun assign :: "string \<Rightarrow> 'v \<Rightarrow> (string \<times> 'v) list \<Rightarrow> (string \<times> 'v) list" where
  "assign k v [] = [(k, v)]"
| "assign k v ((k', v') # m) = (if k' = k then (k, v) # m else (k', v') # assign k v m)"

section \<open>Document parser (DocumentParserService)\<close>

text \<open>
  The libraries the parser calls are parameters. A library call that throws returns
  \<open>Inl\<close> of the exception's \<open>message\<close>.
\<close>

record 'j pdf_data =
  pdf_text :: string
  pdf_numpages :: nat
  pdf_info :: 'j

record 'j csv_result =
  csv_data :: "'j list"
  csv_fields :: "string list option"
  csv_delimiter :: string
  csv_errors :: "'j list"

record 'j libs =
  pdfParse :: "bytes \<Rightarrow> string + 'j pdf_data"
  papaParse :: "string \<Rightarrow> string + 'j csv_result"
  jsonParse :: "string \<Rightarrow> string + 'j"
  jsonStringify :: "'j \<Rightarrow> string"
  bufferFromBase64 :: "string \<Rightarrow> bytes"
  bufferFromString :: "string \<Rightarrow> bytes"
  bufferToString :: "bytes \<Rightarrow> string"

record 'j parsed_document =
  content :: string
  metadata :: "'j metadata"

text \<open>The test \<open>content.match(/^[\w+/=]+$/)\<close>.\<close>

definition isBase64Char :: "char \<Rightarrow> bool" where
  "isBase64Char c =
     (let n = (of_char c :: nat)
      in (65 \<le> n \<and> n \<le> 90) \<or> (97 \<le> n \<and> n \<le> 122) \<or> (48 \<le> n \<and> n \<le> 57)
         \<or> c = CHR ''_'' \<or> c = CHR ''+'' \<or> c = CHR ''/'' \<or> c = CHR ''='')"

definition looksLikeBase64 :: "string \<Rightarrow> bool" where
  "looksLikeBase64 s = (s \<noteq> [] \<and> list_all isBase64Char s)"

text \<open>The \<open>.csv\<close> case, shared by both entry points up to the wording of the placeholder.\<close>

definition csvBranch ::
  "'j libs \<Rightarrow> string \<Rightarrow> string \<Rightarrow> 'j metadata \<Rightarrow> 'j parsed_document" where
  "csvBranch L placeholder csvString m0 =
     (case papaParse L csvString of
        Inr csvData \<Rightarrow>
          let textContent = join ''\<newline>'' (map (jsonStringify L) (csv_data csvData));
              m1 = assign ''rowCount'' (MNumber (length (csv_data csvData))) m0;
              m2 = assign ''fields'' (MFields (csv_fields csvData)) m1;
              m3 = assign ''delimiter'' (MString (csv_delimiter csvData)) m2;
              m4 = (if csv_errors csvData \<noteq> []
                    then assign ''parseErrors'' (MValues (csv_errors csvData)) m3 else m3)
          in \<lparr>content = textContent, metadata = m4\<rparr>
      | Inl message \<Rightarrow> \<lparr>content = placeholder @ message, metadata = m0\<rparr>)"

definition pdfBranch ::
  "'j libs \<Rightarrow> string \<Rightarrow> bytes \<Rightarrow> 'j metadata \<Rightarrow> 'j parsed_document" where
  "pdfBranch L placeholder pdfBuffer m0 =
     (case pdfParse L pdfBuffer of
        Inr pdfData \<Rightarrow>
          \<lparr>content = pdf_text pdfData,
           metadata = assign ''info'' (MValue (pdf_info pdfData))
                        (assign ''pageCount'' (MNumber (pdf_numpages pdfData)) m0)\<rparr>
      | Inl message \<Rightarrow> \<lparr>content = placeholder @ message, metadata = m0\<rparr>)"

text \<open>\<open>parseContentFromString(content, fileName)\<close>.\<close>

definition parseContentFromString ::
  "'j libs \<Rightarrow> string \<Rightarrow> string \<Rightarrow> error + 'j parsed_document" where
  "parseContentFromString L cont fileName =
     (let fileExtension = toLowerCase (extname fileName);
          m0 = [(''source'', MString fileName)]
      in if fileExtension = ''.pdf'' then
           Inr (pdfBranch L ''Failed to parse PDF content. Error: ''
                  (if looksLikeBase64 cont then bufferFromBase64 L cont
                   else bufferFromString L cont) m0)
         else if fileExtension = ''.csv'' then
           Inr (csvBranch L ''Failed to parse CSV content. Error: '' cont m0)
         else if fileExtension = ''.txt'' then
           Inr \<lparr>content = cont, metadata = m0\<rparr>
         else if fileExtension = ''.json'' then
           (case jsonParse L cont of
              Inr jsonData \<Rightarrow> Inr \<lparr>content = jsonStringify L jsonData, metadata = m0\<rparr>
            | Inl message \<Rightarrow> Inr \<lparr>content = cont, metadata = m0\<rparr>)
         else Inr \<lparr>content = cont, metadata = m0\<rparr>)"

text \<open>
  \<open>parseDocument(filePath)\<close>. The file is read first (\<open>fs.readFile\<close>, a parameter); the
  \<open>.json\<close> case has no inner \<open>try\<close>, and the \<open>default\<close> case throws.
\<close>

definition parseDocument ::
  "(string \<Rightarrow> error + bytes) \<Rightarrow> 'j libs \<Rightarrow> string \<Rightarrow> error + 'j parsed_document" where
  "parseDocument readFile L filePath =
     (let fileExtension = toLowerCase (extname filePath);
          fileName = basename filePath;
          m0 = [(''source'', MString fileName)]
      in case readFile filePath of
           Inl e \<Rightarrow> Inl e
         | Inr fileBuffer \<Rightarrow>
             if fileExtension = ''.pdf'' then
               Inr (pdfBranch L ''Failed to parse PDF file. Error: '' fileBuffer m0)
             else if fileExtension = ''.csv'' then
               Inr (csvBranch L ''Failed to parse CSV file. Error: ''
                      (bufferToString L fileBuffer) m0)
             else if fileExtension = ''.txt'' then
               Inr \<lparr>content = bufferToString L fileBuffer, metadata = m0\<rparr>
             else if fileExtension = ''.json'' then
               (case jsonParse L (bufferToString L fileBuffer) of
                  Inr jsonData \<Rightarrow> Inr \<lparr>content = jsonStringify L jsonData, metadata = m0\<rparr>
                | Inl message \<Rightarrow> Inl (JsonSyntaxError message))
             else Inl (UnsupportedFormat fileExtension))"

section \<open>Embedding service (EmbeddingService)\<close>

record 'j document =
  doc_id :: string
  doc_content :: string
  doc_metadata :: "'j metadata"

record 'j embedding_record =
  rec_id :: string
  rec_values :: "real list"
  rec_metadata :: "'j metadata"

text \<open>
  The body of the \<open>try\<close> block of \<open>getEmbedding\<close> is the embedding provider: it takes the
  text and the provider's state and gives a vector or throws. The code ships a
  placeholder that draws \<open>placeholderDimension\<close> numbers from \<open>Math.random\<close>; the random
  source is a stream, the state the number of draws made so far.
\<close>

type_synonym 's provider = "string \<Rightarrow> 's \<Rightarrow> (error + real list) \<times> 's"

definition placeholderDimension :: nat where
  "placeholderDimension = 1536"

definition placeholderProvider :: "(nat \<Rightarrow> real) \<Rightarrow> nat provider" where
  "placeholderProvider random txt n =
     (Inr (map random [n ..< n + placeholderDimension]), n + placeholderDimension)"

definition getEmbedding :: "'s provider \<Rightarrow> string \<Rightarrow> 's \<Rightarrow> (error + real list) \<times> 's" where
  "getEmbedding P txt s =
     (if txt = [] \<or> length (trim txt) = 0 then (Inr [], s) else P txt s)"

text \<open>The \<open>for\<close> loop of \<open>getEmbeddingsForDocuments\<close>, with \<open>embeddedDocs\<close> as accumulator.\<close>

fun embedLoop ::
  "'s provider \<Rightarrow> 'j document list \<Rightarrow> 'j embedding_record list \<Rightarrow> 's
     \<Rightarrow> (error + 'j embedding_record list) \<times> 's" where
  "embedLoop P [] embeddedDocs s = (Inr embeddedDocs, s)"
| "embedLoop P (doc # docs) embeddedDocs s =
     (case getEmbedding P (doc_content doc) s of
        (Inl e, s') \<Rightarrow> (Inl e, s')
      | (Inr embedding, s') \<Rightarrow>
          embedLoop P docs
            (if length embedding > 0
             then embeddedDocs @
                  [\<lparr>rec_id = doc_id doc, rec_values = embedding,
                    rec_metadata = doc_metadata doc\<rparr>]
             else embeddedDocs) s')"

definition getEmbeddingsForDocuments ::
  "'s provider \<Rightarrow> 'j document list \<Rightarrow> 's \<Rightarrow> (error + 'j embedding_record list) \<times> 's" where
  "getEmbeddingsForDocuments P documents s = embedLoop P documents [] s"

section \<open>Vector index (PineconeService)\<close>

text \<open>
  The service holds the index handle, unset until \<open>onModuleInit\<close> assigns it. The
  index itself is external: \<open>upsert\<close> is a parameter that takes the index and the
  records and gives the updated index or throws. \<open>onModuleInit\<close> creates a missing index
  with dimension \<open>indexDimension\<close>.
\<close>

definition indexDimension :: nat where
  "indexDimension = 1536"

record 'i pinecone_service =
  index :: "'i option"

type_synonym ('i, 'j) upsert = "'i \<Rightarrow> 'j embedding_record list \<Rightarrow> error + 'i"

definition upsertVectors ::
  "('i, 'j) upsert \<Rightarrow> 'i pinecone_service \<Rightarrow> 'j embedding_record list
     \<Rightarrow> (error + unit) \<times> 'i pinecone_service" where
  "upsertVectors upsert svc vectors =
     (case index svc of
        None \<Rightarrow> (Inr (), svc)
      | Some ix \<Rightarrow>
          (case upsert ix vectors of
             Inl e \<Rightarrow> (Inl e, svc)
           | Inr ix' \<Rightarrow> (Inr (), svc\<lparr>index := Some ix'\<rparr>)))"

section \<open>Object storage (S3Service)\<close>

text \<open>
  The S3 client is external: \<open>s3.getObject({Bucket, Key}).promise()\<close> is a parameter that
  gives the object or throws. \<open>Body\<close> is the object's payload, absent when the client
  returns none; it is kept as the text that \<open>Body.toString('utf-8')\<close> gives. The
  constructor always sets \<open>this.s3\<close>, so the configuration test is on the bucket name.
\<close>

record s3_object =
  Body :: "string option"

record s3_service =
  s3BucketName :: string
  s3 :: "string \<Rightarrow> string \<Rightarrow> error + s3_object"

definition getObject :: "s3_service \<Rightarrow> string \<Rightarrow> error + s3_object" where
  "getObject svc key =
     (if s3BucketName svc = [] \<or> s3BucketName svc = ''your-s3-bucket-name''
      then Inl StorageNotConfigured
      else s3 svc (s3BucketName svc) key)"

definition getFileContentAsString :: "s3_service \<Rightarrow> string \<Rightarrow> error + string" where
  "getFileContentAsString svc key =
     (case getObject svc key of
        Inl e \<Rightarrow> Inl e
      | Inr s3Object \<Rightarrow>
          (case Body s3Object of
             None \<Rightarrow> Inl (EmptyBody key)
           | Some body \<Rightarrow> Inr body))"

text \<open>
  The result of \<open>new URL(s3Url)\<close>, as far as the code reads it. The constructor is a
  parameter; \<open>None\<close> is its \<open>TypeError\<close>.
\<close>

record parsed_url =
  protocol :: string
  hostname :: string
  pathname :: string

text \<open>
  Step 1 of \<open>downloadFileContentFromUrl\<close>: the key, from the three cases on the host
  name and the protocol. \<open>substring(1)\<close> drops the leading slash.
\<close>

definition s3KeyOfUrl :: "parsed_url \<Rightarrow> string" where
  "s3KeyOfUrl parsedUrl =
     (if endsWith (hostname parsedUrl) ''.s3.amazonaws.com''
         \<or> includes_str (hostname parsedUrl) ''.s3-website''
      then (if startsWith (pathname parsedUrl) ''/''
            then drop 1 (pathname parsedUrl) else pathname parsedUrl)
      else if protocol parsedUrl = ''s3:''
      then (if startsWith (pathname parsedUrl) ''/''
            then drop 1 (pathname parsedUrl) else pathname parsedUrl)
      else (if startsWith (pathname parsedUrl) ''/''
            then drop 1 (pathname parsedUrl) else pathname parsedUrl))"

record download =
  dl_content :: string
  s3Key :: string
  originalFileName :: string

definition downloadFileContentFromUrl ::
  "(string \<Rightarrow> parsed_url option) \<Rightarrow> s3_service \<Rightarrow> string \<Rightarrow> error + download" where
  "downloadFileContentFromUrl ctor svc s3Url =
     (case ctor s3Url of
        None \<Rightarrow> Inl InvalidUrl
      | Some parsedUrl \<Rightarrow>
          let key = s3KeyOfUrl parsedUrl
          in if key = [] then Inl InvalidLocator
             else (case getFileContentAsString svc key of
                     Inl e \<Rightarrow> Inl e
                   | Inr c \<Rightarrow>
                       Inr \<lparr>dl_content = c, s3Key = key,
                            originalFileName = basename key\<rparr>))"

section \<open>Ingestion orchestrator (KnowledgeIngestionService)\<close>





section \<open>Stand-ins for the libraries\<close>

text \<open>
  The theorems about the code hold for every library. Where a concrete input is
  evaluated, these stand-ins take the libraries' place; each covers the inputs named in
  its description.
\<close>

subsection \<open>JSON\<close>

text \<open>
  JavaScript values as far as \<open>JSON.parse\<close> produces them. A number is a whole number
  that a double holds exactly, or an infinity (\<open>JInfinity True\<close> is \<open>-Infinity\<close>), which
  is what a literal beyond the range of doubles parses to; negative zero is not told
  from zero. An object is the list of its properties in the order in which JavaScript
  lists them.
\<close>

datatype json =
    JNull
  | JBool bool
  | JNumber int
  | JInfinity bool
  | JString string
  | JArray "json list"
  | JObject "(string \<times> json) list"

definition digitChar :: "nat \<Rightarrow> char" where
  "digitChar d = char_of (48 + d)"

fun showNat :: "nat \<Rightarrow> string" where
  "showNat n = (if n < 10 then [digitChar n] else showNat (n div 10) @ [digitChar (n mod 10)])"

declare showNat.simps [simp del]

definition hexChar :: "nat \<Rightarrow> char" where
  "hexChar d = (if d < 10 then char_of (48 + d) else char_of (87 + d))"

text \<open>\<open>QuoteJSONString\<close> of ECMAScript, on code units below 256.\<close>

definition quoteChar :: "char \<Rightarrow> string" where
  "quoteChar c =
     (let n = (of_char c :: nat)
      in if c = CHR 0x22 then [CHR 0x5C, CHR 0x22]
         else if c = CHR 0x5C then [CHR 0x5C, CHR 0x5C]
         else if n = 8 then [CHR 0x5C, CHR ''b'']
         else if n = 12 then [CHR 0x5C, CHR ''f'']
         else if n = 10 then [CHR 0x5C, CHR ''n'']
         else if n = 13 then [CHR 0x5C, CHR ''r'']
         else if n = 9 then [CHR 0x5C, CHR ''t'']
         else if n < 32 then [CHR 0x5C, CHR ''u'', CHR ''0'', CHR ''0'',
                              hexChar (n div 16), hexChar (n mod 16)]
         else [c])"

definition quoteJSONString :: "string \<Rightarrow> string" where
  "quoteJSONString s = [CHR 0x22] @ concat (map quoteChar s) @ [CHR 0x22]"

fun JSON_stringify :: "json \<Rightarrow> string" where
  "JSON_stringify JNull = ''null''"
| "JSON_stringify (JBool b) = (if b then ''true'' else ''false'')"
| "JSON_stringify (JNumber i) = (if i < 0 then CHR ''-'' # showNat (nat (- i)) else showNat (nat i))"
| "JSON_stringify (JInfinity negative) = ''null''"
| "JSON_stringify (JString s) = quoteJSONString s"
| "JSON_stringify (JArray xs) = ''['' @ join '','' (map JSON_stringify xs) @ '']''"
| "JSON_stringify (JObject kvs) =
     ''{'' @ join '','' (map (\<lambda>kv. quoteJSONString (fst kv) @ '':'' @ JSON_stringify (snd kv)) kvs)
       @ ''}''"

text \<open>
  \<open>JSON.parse\<close> for texts whose strings hold code units below 256 and whose numbers are
  written without fraction and without negative exponent, and are either below \<open>2^53\<close> in
  magnitude or, with an exponent of 309 or more, beyond the largest double. \<open>None\<close> is
  the \<open>SyntaxError\<close>. The first argument bounds the number of nested calls.
\<close>

definition isJsonSpace :: "char \<Rightarrow> bool" where
  "isJsonSpace c = (c = CHR '' '' \<or> c = CHR 0x09 \<or> c = CHR 0x0A \<or> c = CHR 0x0D)"

definition skipWs :: "string \<Rightarrow> string" where
  "skipWs s = dropWhile isJsonSpace s"

definition isDigit :: "char \<Rightarrow> bool" where
  "isDigit c = (48 \<le> (of_char c :: nat) \<and> (of_char c :: nat) \<le> 57)"

definition readDigits :: "string \<Rightarrow> int" where
  "readDigits ds = foldl (\<lambda>acc c. 10 * acc + ((of_char c :: int) - 48)) 0 ds"

text \<open>
  The body of a string literal after its opening quote, up to the closing quote, with
  the escape sequences of JSON decoded. A raw control character is a \<open>SyntaxError\<close>, as
  is an escape that JSON does not have. An escape by code (\<open>u\<close> and four
  hexadecimal digits) is decoded when it names a code unit below 256; the others are
  beyond these strings and are refused as well.
\<close>

definition hexValue :: "char \<Rightarrow> nat option" where
  "hexValue c =
     (let n = (of_char c :: nat)
      in if 48 \<le> n \<and> n \<le> 57 then Some (n - 48)
         else if 97 \<le> n \<and> n \<le> 102 then Some (n - 87)
         else if 65 \<le> n \<and> n \<le> 70 then Some (n - 55)
         else None)"

definition unescape :: "char \<Rightarrow> char option" where
  "unescape e =
     (if e = CHR 0x22 \<or> e = CHR 0x5C \<or> e = CHR ''/'' then Some e
      else if e = CHR ''b'' then Some (CHR 0x08)
      else if e = CHR ''f'' then Some (CHR 0x0C)
      else if e = CHR ''n'' then Some (CHR 0x0A)
      else if e = CHR ''r'' then Some (CHR 0x0D)
      else if e = CHR ''t'' then Some (CHR 0x09)
      else None)"

definition consBody :: "char \<Rightarrow> (string \<times> string) option \<Rightarrow> (string \<times> string) option" where
  "consBody c r = (case r of None \<Rightarrow> None | Some (body, rest) \<Rightarrow> Some (c # body, rest))"

fun parseStringBody :: "string \<Rightarrow> (string \<times> string) option" where
  "parseStringBody [] = None"
| "parseStringBody (c # cs) =
     (if c = CHR 0x22 then Some ([], cs)
      else if c = CHR 0x5C then
        (case cs of
           [] \<Rightarrow> None
         | e # cs1 \<Rightarrow>
             if e = CHR ''u'' then
               (case cs1 of
                  h1 # h2 # h3 # h4 # cs2 \<Rightarrow>
                    (case (hexValue h1, hexValue h2, hexValue h3, hexValue h4) of
                       (Some a, Some b, Some x, Some y) \<Rightarrow>
                         if a = 0 \<and> b = 0
                         then consBody (char_of (16 * x + y)) (parseStringBody cs2)
                         else None
                     | _ \<Rightarrow> None)
                | _ \<Rightarrow> None)
             else (case unescape e of
                     None \<Rightarrow> None
                   | Some x \<Rightarrow> consBody x (parseStringBody cs1)))
      else if (of_char c :: nat) < 32 then None
      else consBody c (parseStringBody cs))"

text \<open>
  The own properties of a JavaScript object are listed with the array indices first, in
  ascending order, and then the other keys in the order of their creation. An array
  index is the canonical decimal form of a whole number up to \<open>2^32 - 2\<close>. \<open>setProp\<close>
  is the assignment \<open>obj[k] = v\<close> on such a list.
\<close>

definition isIndexKey :: "string \<Rightarrow> bool" where
  "isIndexKey k =
     (k \<noteq> [] \<and> list_all isDigit k \<and> (if hd k = CHR ''0'' then length k = 1 else True)
      \<and> readDigits k \<le> 4294967294)"

fun insertIndex :: "string \<Rightarrow> 'a \<Rightarrow> (string \<times> 'a) list \<Rightarrow> (string \<times> 'a) list" where
  "insertIndex k v [] = [(k, v)]"
| "insertIndex k v ((k', v') # m) =
     (if isIndexKey k' \<and> readDigits k' \<le> readDigits k then (k', v') # insertIndex k v m
      else (k, v) # (k', v') # m)"

definition setProp :: "string \<Rightarrow> 'a \<Rightarrow> (string \<times> 'a) list \<Rightarrow> (string \<times> 'a) list" where
  "setProp k v m =
     (if list_ex (\<lambda>kv. fst kv = k) m then assign k v m
      else if isIndexKey k then insertIndex k v m
      else m @ [(k, v)])"

definition parseNumber :: "string \<Rightarrow> (json \<times> string) option" where
  "parseNumber s =
     (let negative = startsWith s ''-'';
          s1 = (if negative then drop 1 s else s);
          ds = takeWhile isDigit s1;
          r1 = drop (length ds) s1;
          hasExp = (startsWith r1 ''e'' \<or> startsWith r1 ''E'');
          r2 = (if hasExp then drop 1 r1 else r1);
          r3 = (if hasExp \<and> startsWith r2 ''+'' then drop 1 r2 else r2);
          es = (if hasExp then takeWhile isDigit r3 else []);
          rest = drop (length es) r3;
          mantissa = readDigits ds;
          exponent = readDigits es
      in if ds = [] \<or> (length ds > 1 \<and> hd ds = CHR ''0'') \<or> startsWith r1 ''.''
            \<or> (hasExp \<and> es = [])
         then None
         else if mantissa \<noteq> 0 \<and> 309 \<le> exponent then Some (JInfinity negative, rest)
         else if mantissa * 10 ^ nat exponent < 2 ^ 53
         then Some (JNumber (if negative then - (mantissa * 10 ^ nat exponent)
                             else mantissa * 10 ^ nat exponent), rest)
         else None)"

fun parseValue :: "nat \<Rightarrow> string \<Rightarrow> (json \<times> string) option"
  and parseElements :: "nat \<Rightarrow> string \<Rightarrow> json list \<Rightarrow> (json \<times> string) option"
  and parseMembers :: "nat \<Rightarrow> string \<Rightarrow> (string \<times> json) list \<Rightarrow> (json \<times> string) option"
where
  "parseValue 0 s = None"
| "parseValue (Suc n) s =
     (let t = skipWs s
      in if startsWith t ''null'' then Some (JNull, drop 4 t)
         else if startsWith t ''true'' then Some (JBool True, drop 4 t)
         else if startsWith t ''false'' then Some (JBool False, drop 5 t)
         else if startsWith t [CHR 0x22] then
           (case parseStringBody (drop 1 t) of
              None \<Rightarrow> None
            | Some (str, rest) \<Rightarrow> Some (JString str, rest))
         else if startsWith t ''['' then
           (if startsWith (skipWs (drop 1 t)) '']''
            then Some (JArray [], drop 1 (skipWs (drop 1 t)))
            else parseElements n (drop 1 t) [])
         else if startsWith t ''{'' then
           (if startsWith (skipWs (drop 1 t)) ''}''
            then Some (JObject [], drop 1 (skipWs (drop 1 t)))
            else parseMembers n (drop 1 t) [])
         else parseNumber t)"
| "parseElements 0 s acc = None"
| "parseElements (Suc n) s acc =
     (case parseValue n s of
        None \<Rightarrow> None
      | Some (v, rest) \<Rightarrow>
          let t = skipWs rest
          in if startsWith t '','' then parseElements n (drop 1 t) (acc @ [v])
             else if startsWith t '']'' then Some (JArray (acc @ [v]), drop 1 t)
             else None)"
| "parseMembers 0 s acc = None"
| "parseMembers (Suc n) s acc =
     (let t = skipWs s
      in if startsWith t [CHR 0x22] then
           (case parseStringBody (drop 1 t) of
              None \<Rightarrow> None
            | Some (k, rest) \<Rightarrow>
                let t1 = skipWs rest
                in if startsWith t1 '':'' then
                     (case parseValue n (drop 1 t1) of
                        None \<Rightarrow> None
                      | Some (v, rest2) \<Rightarrow>
                          let t2 = skipWs rest2
                          in if startsWith t2 '','' then parseMembers n (drop 1 t2) (setProp k v acc)
                             else if startsWith t2 ''}'' then Some (JObject (setProp k v acc), drop 1 t2)
                             else None)
                   else None)
         else None)"

definition JSON_parse :: "string \<Rightarrow> string + json" where
  "JSON_parse s =
     (case parseValue (Suc (length s)) s of
        None \<Rightarrow> Inl ''Unexpected token in JSON''
      | Some (v, rest) \<Rightarrow>
          if skipWs rest = [] then Inr v else Inl ''Unexpected token in JSON'')"





subsection \<open>CSV\<close>

text \<open>
  \<open>Papa.parse(input, {header: true, skipEmptyLines: true})\<close> for input without quotes,
  with \<open>\n\<close> line ends, the comma as the only candidate delimiter and header names
  that differ from one another. The comma is
  detected when the first ten lines have two or more fields on average; a row whose
  number of fields differs from the header's is kept and reported in \<open>errors\<close>, its
  surplus fields under \<open>__parsed_extra\<close>. The parser does not throw.
\<close>

fun splitOn :: "char \<Rightarrow> string \<Rightarrow> string list" where
  "splitOn d [] = [[]]"
| "splitOn d (c # cs) =
     (if c = d then [] # splitOn d cs
      else (case splitOn d cs of
              [] \<Rightarrow> [[c]]
            | w # ws \<Rightarrow> (c # w) # ws))"

definition isEmptyLine :: "string list \<Rightarrow> bool" where
  "isEmptyLine row = (row = [[]])"

definition delimiterGuessed :: "string list list \<Rightarrow> bool" where
  "delimiterGuessed rows =
     (let preview = filter (\<lambda>r. \<not> isEmptyLine r) (take 10 rows)
      in 199 * length preview < 100 * sum_list (map length preview))"

definition delimiterError :: json where
  "delimiterError =
     JObject [(''type'', JString ''Delimiter''), (''code'', JString ''UndetectableDelimiter''),
              (''message'', JString (''Unable to auto-detect delimiting character; defaulted to ''
                                       @ [CHR 0x27, CHR '','', CHR 0x27]))]"

definition fieldMismatch :: "nat \<Rightarrow> nat \<Rightarrow> nat \<Rightarrow> json list" where
  "fieldMismatch expected parsed row =
     (if parsed > expected then
        [JObject [(''type'', JString ''FieldMismatch''), (''code'', JString ''TooManyFields''),
                  (''message'', JString (''Too many fields: expected '' @ showNat expected
                                           @ '' fields but parsed '' @ showNat parsed)),
                  (''row'', JNumber (int row))]]
      else if parsed < expected then
        [JObject [(''type'', JString ''FieldMismatch''), (''code'', JString ''TooFewFields''),
                  (''message'', JString (''Too few fields: expected '' @ showNat expected
                                           @ '' fields but parsed '' @ showNat parsed)),
                  (''row'', JNumber (int row))]]
      else [])"

definition processRow :: "string list \<Rightarrow> string list \<Rightarrow> json" where
  "processRow fieldNames rowSource =
     (let named = foldl (\<lambda>row kv. setProp (fst kv) (JString (snd kv)) row) []
                    (zip fieldNames rowSource);
          extra = drop (length fieldNames) rowSource
      in JObject (if extra = [] then named
                  else setProp ''__parsed_extra'' (JArray (map JString extra)) named))"

definition Papa_parse :: "string \<Rightarrow> string + json csv_result" where
  "Papa_parse input =
     (let rows = map (splitOn CHR '','') (splitOn CHR 0x0A input);
          kept = filter (\<lambda>r. \<not> isEmptyLine r) rows;
          fieldNames = (case kept of [] \<Rightarrow> [] | header # rest \<Rightarrow> header);
          body = drop 1 kept
      in Inr \<lparr>csv_data = map (processRow fieldNames) body,
              csv_fields = Some fieldNames,
              csv_delimiter = '','',
              csv_errors =
                (if delimiterGuessed rows then [] else [delimiterError])
                @ concat (map (\<lambda>ir. fieldMismatch (length fieldNames) (length (snd ir)) (fst ir))
                            (zip [0 ..< length body] body))\<rparr>)"

subsection \<open>PDF and buffers\<close>

text \<open>
  \<open>pdf-parse\<close> rejects a payload that does not begin with the PDF header. The text of
  the pages is not modelled: a payload with the header gives a document without pages.
\<close>

definition stub_pdfParse :: "bytes \<Rightarrow> string + json pdf_data" where
  "stub_pdfParse payload =
     (if startsWith payload ''%PDF-''
      then Inr \<lparr>pdf_text = [], pdf_numpages = 0, pdf_info = JObject []\<rparr>
      else Inl ''Invalid PDF structure'')"

text \<open>
  \<open>Buffer.from(s, 'base64')\<close> on the characters the parser's test lets through: the
  sextets up to the first \<open>=\<close>, packed into bytes.
\<close>

definition sextet :: "char \<Rightarrow> nat" where
  "sextet c =
     (let n = (of_char c :: nat)
      in if 65 \<le> n \<and> n \<le> 90 then n - 65
         else if 97 \<le> n \<and> n \<le> 122 then n - 71
         else if 48 \<le> n \<and> n \<le> 57 then n + 4
         else if c = CHR ''+'' then 62
         else 63)"

fun packSextets :: "nat list \<Rightarrow> bytes" where
  "packSextets (a # b # c # d # rest) =
     char_of (a * 4 + b div 16) # char_of ((b mod 16) * 16 + c div 4)
       # char_of ((c mod 4) * 64 + d) # packSextets rest"
| "packSextets [a, b, c] = [char_of (a * 4 + b div 16), char_of ((b mod 16) * 16 + c div 4)]"
| "packSextets [a, b] = [char_of (a * 4 + b div 16)]"
| "packSextets rest = []"

definition base64Decode :: "string \<Rightarrow> bytes" where
  "base64Decode s = packSextets (map sextet (takeWhile (\<lambda>c. c \<noteq> CHR ''='') s))"

definition nodeLibs :: "json libs" where
  "nodeLibs =
     \<lparr>pdfParse = stub_pdfParse, papaParse = Papa_parse, jsonParse = JSON_parse,
      jsonStringify = JSON_stringify, bufferFromBase64 = base64Decode,
      bufferFromString = (\<lambda>s. s), bufferToString = (\<lambda>b. b)\<rparr>"

subsection \<open>URL\<close>

text \<open>
  \<open>new URL(s)\<close> for absolute URLs of the form \<open>scheme://host[:port][/path][?query][#fragment]\<close>
  written with plain characters (no user information, escapes or dot segments). For
  the special schemes the host is lower-cased and an empty path is \<open>/\<close>.
\<close>

definition isSchemeChar :: "char \<Rightarrow> bool" where
  "isSchemeChar c =
     (let n = (of_char c :: nat)
      in (97 \<le> n \<and> n \<le> 122) \<or> (48 \<le> n \<and> n \<le> 57)
         \<or> c = CHR ''+'' \<or> c = CHR ''-'' \<or> c = CHR ''.'')"

definition isSpecialScheme :: "string \<Rightarrow> bool" where
  "isSpecialScheme scheme = (scheme \<in> set [''http'', ''https'', ''ftp'', ''ws'', ''wss''])"

definition URL_new :: "string \<Rightarrow> parsed_url option" where
  "URL_new s =
     (let scheme = toLowerCase (takeWhile (\<lambda>c. c \<noteq> CHR '':'') s);
          rest = drop (length scheme) s;
          afterSlashes = drop 3 rest;
          authority = takeWhile (\<lambda>c. c \<noteq> CHR ''/'' \<and> c \<noteq> CHR ''?'' \<and> c \<noteq> CHR ''#'') afterSlashes;
          host = takeWhile (\<lambda>c. c \<noteq> CHR '':'') authority;
          path = takeWhile (\<lambda>c. c \<noteq> CHR ''?'' \<and> c \<noteq> CHR ''#'')
                   (drop (length authority) afterSlashes)
      in if startsWith rest ''://'' \<and> scheme \<noteq> [] \<and> list_all isSchemeChar scheme
            \<and> 97 \<le> (of_char (hd scheme) :: nat)
            \<and> (if isSpecialScheme scheme then host \<noteq> [] else True)
         then Some \<lparr>protocol = scheme @ '':'',
                    hostname = (if isSpecialScheme scheme then toLowerCase host else host),
                    pathname = (if path = [] \<and> isSpecialScheme scheme then ''/'' else path)\<rparr>
         else None)"

section \<open>Example collaborators\<close>

text \<open>
  A bucket with three objects, an index that replaces records by id, the placeholder
  provider on a constant random source, a provider that fails on one text, a CSV parser
  that throws, and a file system with two files.
\<close>

definition exampleBucket :: "string \<Rightarrow> string \<Rightarrow> error + s3_object" where
  "exampleBucket bucket key =
     (if key = ''path/to/empty.txt'' then Inr \<lparr>Body = Some []\<rparr>
      else if key = ''path/to/file.pdf'' then Inr \<lparr>Body = Some ''%PDF-1.4''\<rparr>
      else if key = ''path/to/notes.txt'' then Inr \<lparr>Body = Some ''hello''\<rparr>
      else Inl (StorageFailure ''NoSuchKey''))"

definition exampleS3 :: s3_service where
  "exampleS3 = \<lparr>s3BucketName = ''knowledge-base'', s3 = exampleBucket\<rparr>"

definition exampleUpsert :: "(json embedding_record list, json) upsert" where
  "exampleUpsert ix recs = Inr (filter (\<lambda>r. rec_id r \<notin> set (map rec_id recs)) ix @ recs)"



definition exampleDoc :: "string \<Rightarrow> string \<Rightarrow> json document" where
  "exampleDoc i c = \<lparr>doc_id = i, doc_content = c, doc_metadata = []\<rparr>"

definition failingProvider :: "string \<Rightarrow> nat provider" where
  "failingProvider bad t n =
     (if t = bad then (Inl (ProviderFailure ''rate limit''), Suc n) else (Inr [1, 2], Suc n))"

definition throwingCsvLibs :: "json libs" where
  "throwingCsvLibs = nodeLibs\<lparr>papaParse := (\<lambda>input. Inl ''out of memory'')\<rparr>"

definition exampleFiles :: "string \<Rightarrow> error + bytes" where
  "exampleFiles filePath =
     (if filePath = ''/tmp/doc-1-report.docx'' then Inr ''PK''
      else if filePath = ''/tmp/doc-2-f.json'' then Inr ''[1,2]''
      else Inl (ReadFailure ''ENOENT''))"

section \<open>The embedding batch\<close>

lemma dropWhile_all_iff: "(\<forall>c\<in>set (dropWhile P xs). P c) = (\<forall>c\<in>set xs. P c)"
  by (induction xs) auto

lemma trim_empty_iff: "(t = [] \<or> length (trim t) = 0) = isBlank t"
proof -
  have "(length (trim t) = 0) = (\<forall>c\<in>set (dropWhile isWhiteSpace t). isWhiteSpace c)"
    by (simp add: trim_def)
  also have "\<dots> = (\<forall>c\<in>set t. isWhiteSpace c)"
    by (rule dropWhile_all_iff)
  finally have "(length (trim t) = 0) = isBlank t"
    by (simp add: isBlank_def list_all_iff)
  moreover have "t = [] \<Longrightarrow> isBlank t"
    by (simp add: isBlank_def)
  ultimately show ?thesis by blast
qed

lemma getEmbedding_blank: "isBlank t \<Longrightarrow> getEmbedding P t s = (Inr [], s)"
  using trim_empty_iff [of t] by (simp add: getEmbedding_def)

lemma getEmbedding_nonblank: "\<not> isBlank t \<Longrightarrow> getEmbedding P t s = P t s"
  using trim_empty_iff [of t] by (simp add: getEmbedding_def)

lemma embedLoop_skip:
  "embedLoop P docs acc s = embedLoop P (filter (\<lambda>d. \<not> isBlank (doc_content d)) docs) acc s"
proof (induction docs arbitrary: acc s)
  case Nil
  show ?case by simp
next
  case (Cons d docs)
  show ?case
  proof (cases "isBlank (doc_content d)")
    case True
    then show ?thesis using Cons.IH [of acc s] by (simp add: getEmbedding_blank)
  next
    case False
    obtain r s' where g: "getEmbedding P (doc_content d) s = (r, s')"
      by (cases "getEmbedding P (doc_content d) s")
    show ?thesis
    proof (cases r)
      case (Inl e)
      with g False show ?thesis by simp
    next
      case (Inr emb)
      with g False show ?thesis using Cons.IH by simp
    qed
  qed
qed

lemma embedLoop_append:
  "embedLoop P (pre @ post) acc s =
     (case embedLoop P pre acc s of
        (Inl e, s') \<Rightarrow> (Inl e, s')
      | (Inr recs, s') \<Rightarrow> embedLoop P post recs s')"
proof (induction pre arbitrary: acc s)
  case Nil
  show ?case by simp
next
  case (Cons d pre)
  obtain r s' where g: "getEmbedding P (doc_content d) s = (r, s')"
    by (cases "getEmbedding P (doc_content d) s")
  show ?case
  proof (cases r)
    case (Inl e)
    with g show ?thesis by simp
  next
    case (Inr emb)
    with g show ?thesis using Cons.IH by simp
  qed
qed

text \<open>
  C4. A document whose content is empty or has white space only is skipped: the batch
  gives what it gives without such documents, and a batch of such documents only gives
  the empty list. When the documents before \<open>d\<close> have been embedded and the provider
  throws on \<open>d\<close>, the batch ends with that error, no records, and the provider in the
  state the failing call left, whatever documents follow.
\<close>

theorem embedBatch_skips_blank_and_aborts:
  "getEmbeddingsForDocuments P docs s =
     getEmbeddingsForDocuments P (filter (\<lambda>d. \<not> isBlank (doc_content d)) docs) s
   \<and> ((\<forall>d \<in> set docs. isBlank (doc_content d)) \<longrightarrow>
        getEmbeddingsForDocuments P docs s = (Inr [], s))
   \<and> (getEmbeddingsForDocuments P pre s = (Inr recs, s1) \<and> \<not> isBlank (doc_content d)
        \<and> P (doc_content d) s1 = (Inl e, s2) \<longrightarrow>
        getEmbeddingsForDocuments P (pre @ d # rest) s = (Inl e, s2))"
proof (intro conjI impI)
  show "getEmbeddingsForDocuments P docs s =
     getEmbeddingsForDocuments P (filter (\<lambda>d. \<not> isBlank (doc_content d)) docs) s"
    unfolding getEmbeddingsForDocuments_def by (rule embedLoop_skip)
next
  assume "\<forall>d \<in> set docs. isBlank (doc_content d)"
  then have "filter (\<lambda>d. \<not> isBlank (doc_content d)) docs = []"
    by (simp add: filter_empty_conv)
  then show "getEmbeddingsForDocuments P docs s = (Inr [], s)"
    unfolding getEmbeddingsForDocuments_def using embedLoop_skip [of P docs "[]" s] by simp
next
  assume a: "getEmbeddingsForDocuments P pre s = (Inr recs, s1) \<and> \<not> isBlank (doc_content d)
        \<and> P (doc_content d) s1 = (Inl e, s2)"
  then show "getEmbeddingsForDocuments P (pre @ d # rest) s = (Inl e, s2)"
    unfolding getEmbeddingsForDocuments_def
    by (simp add: embedLoop_append getEmbedding_nonblank)
qed

theorem embedBatch_skips_blank_and_aborts_witness:
  "getEmbeddingsForDocuments (failingProvider ''x'')
     [exampleDoc ''1'' ''  '', exampleDoc ''2'' ''''] 0 = (Inr [], 0)
   \<and> getEmbeddingsForDocuments (failingProvider ''x'')
       [exampleDoc ''1'' ''a'', exampleDoc ''2'' ''x'', exampleDoc ''3'' ''c''] 0
     = (Inl (ProviderFailure ''rate limit''), 2)"
proof -
  have blank: "\<forall>d \<in> set [exampleDoc ''1'' ''  '', exampleDoc ''2'' '''']. isBlank (doc_content d)"
    by (simp add: isBlank_def isWhiteSpace_def exampleDoc_def)
  have pre: "getEmbeddingsForDocuments (failingProvider ''x'') [exampleDoc ''1'' ''a''] 0
               = (Inr [\<lparr>rec_id = ''1'', rec_values = [1, 2], rec_metadata = []\<rparr>], 1)"
    by (simp add: getEmbeddingsForDocuments_def getEmbedding_def trim_def isWhiteSpace_def
          exampleDoc_def failingProvider_def)
  have nb: "\<not> isBlank (doc_content (exampleDoc ''2'' ''x''))"
    by (simp add: isBlank_def isWhiteSpace_def exampleDoc_def)
  have fails: "failingProvider ''x'' (doc_content (exampleDoc ''2'' ''x'')) 1
                 = (Inl (ProviderFailure ''rate limit''), 2)"
    by (simp add: exampleDoc_def failingProvider_def)
  show ?thesis
    using embedBatch_skips_blank_and_aborts
      [of "failingProvider ''x''" "[exampleDoc ''1'' ''  '', exampleDoc ''2'' '''']" 0
          "[exampleDoc ''1'' ''a'']"
          "[\<lparr>rec_id = ''1'', rec_values = [1, 2], rec_metadata = []\<rparr>]" 1
          "exampleDoc ''2'' ''x''" "ProviderFailure ''rate limit''" 2 "[exampleDoc ''3'' ''c'']"]
      blank pre nb fails
    by (simp add: getEmbeddingsForDocuments_def)
qed

lemma embedLoop_placeholder:
  "\<exists>recs n'. embedLoop (placeholderProvider random) docs acc n = (Inr (acc @ recs), n')
     \<and> (\<forall>r \<in> set recs. length (rec_values r) = placeholderDimension)
     \<and> map rec_id recs = map doc_id (filter (\<lambda>d. \<not> isBlank (doc_content d)) docs)"
proof (induction docs arbitrary: acc n)
  case Nil
  show ?case by simp
next
  case (Cons d docs)
  show ?case
  proof (cases "isBlank (doc_content d)")
    case True
    then show ?thesis using Cons.IH [of acc n] by (simp add: getEmbedding_blank)
  next
    case False
    let ?v = "map random [n ..< n + placeholderDimension]"
    let ?new = "\<lparr>rec_id = doc_id d, rec_values = ?v, rec_metadata = doc_metadata d\<rparr>"
    have g: "getEmbedding (placeholderProvider random) (doc_content d) n
               = (Inr ?v, n + placeholderDimension)"
      using False by (simp add: getEmbedding_nonblank placeholderProvider_def)
    have pos: "0 < placeholderDimension" by (simp add: placeholderDimension_def)
    obtain recs n' where
      h: "embedLoop (placeholderProvider random) docs (acc @ [?new]) (n + placeholderDimension)
            = (Inr ((acc @ [?new]) @ recs), n')"
         "\<forall>r \<in> set recs. length (rec_values r) = placeholderDimension"
         "map rec_id recs = map doc_id (filter (\<lambda>d. \<not> isBlank (doc_content d)) docs)"
      using Cons.IH [of "acc @ [?new]" "n + placeholderDimension"] by blast
    have "embedLoop (placeholderProvider random) (d # docs) acc n = (Inr (acc @ (?new # recs)), n')"
      using g h(1) pos by simp
    moreover have "\<forall>r \<in> set (?new # recs). length (rec_values r) = placeholderDimension"
      using h(2) by simp
    moreover have "map rec_id (?new # recs)
                     = map doc_id (filter (\<lambda>d. \<not> isBlank (doc_content d)) (d # docs))"
      using h(3) False by simp
    ultimately show ?thesis by blast
  qed
qed

text \<open>
  C9. With the provider the code has, a batch always returns; each record's vector has
  length 1536, the dimension of the index; the ids of the records are the ids of the
  documents that were not skipped, in order; and two records of any two batches have
  vectors of the same length.
\<close>

theorem records_have_index_dimension_and_document_id:
  "(\<exists>recs n'. getEmbeddingsForDocuments (placeholderProvider random) (docs :: 'j document list) n
        = (Inr recs, n')
      \<and> (\<forall>r \<in> set recs. length (rec_values r) = 1536 \<and> length (rec_values r) = indexDimension)
      \<and> map rec_id recs = map doc_id (filter (\<lambda>d. \<not> isBlank (doc_content d)) docs))
   \<and> (getEmbeddingsForDocuments (placeholderProvider random) docs n = (Inr recs1, n1)
      \<and> getEmbeddingsForDocuments (placeholderProvider random2) (docs2 :: 'j document list) m
        = (Inr recs2, n2)
      \<and> r1 \<in> set recs1 \<and> r2 \<in> set recs2
      \<longrightarrow> length (rec_values r1) = length (rec_values r2))"
proof -
  have one: "\<exists>recs n'. getEmbeddingsForDocuments (placeholderProvider rnd) ds k = (Inr recs, n')
      \<and> (\<forall>r \<in> set recs. length (rec_values r) = 1536 \<and> length (rec_values r) = indexDimension)
      \<and> map rec_id recs = map doc_id (filter (\<lambda>d. \<not> isBlank (doc_content d)) ds)"
    for rnd k and ds :: "'j document list"
    using embedLoop_placeholder [of rnd ds "[]" k]
    by (simp add: getEmbeddingsForDocuments_def placeholderDimension_def indexDimension_def)
  have two: "length (rec_values r1) = length (rec_values r2)"
    if "getEmbeddingsForDocuments (placeholderProvider random) docs n = (Inr recs1, n1)"
       "getEmbeddingsForDocuments (placeholderProvider random2) docs2 m = (Inr recs2, n2)"
       "r1 \<in> set recs1" "r2 \<in> set recs2"
  proof -
    have "length (rec_values r1) = 1536" using one [of random docs n] that(1,3) by auto
    moreover have "length (rec_values r2) = 1536" using one [of random2 docs2 m] that(2,4) by auto
    ultimately show ?thesis by simp
  qed
  show ?thesis using one [of random docs n] two by blast
qed

theorem records_have_index_dimension_and_document_id_witness:
  "\<exists>recs1 n1 recs2 n2.
      getEmbeddingsForDocuments (placeholderProvider (\<lambda>i. 0))
        [exampleDoc ''k1'' ''alpha'', exampleDoc ''k2'' '' '', exampleDoc ''k3'' ''beta''] 0
        = (Inr recs1, n1)
      \<and> getEmbeddingsForDocuments (placeholderProvider (\<lambda>i. 1)) [exampleDoc ''k4'' ''gamma''] n1
        = (Inr recs2, n2)
      \<and> map rec_id recs1 = [''k1'', ''k3''] \<and> map rec_id recs2 = [''k4'']
      \<and> length (rec_values (hd recs1)) = 1536
      \<and> length (rec_values (hd recs1)) = length (rec_values (hd recs2))"
proof -
  let ?batch1 = "[exampleDoc ''k1'' ''alpha'', exampleDoc ''k2'' '' '', exampleDoc ''k3'' ''beta'']"
  let ?batch2 = "[exampleDoc ''k4'' ''gamma'']"
  have f1: "filter (\<lambda>d. \<not> isBlank (doc_content d)) ?batch1
              = [exampleDoc ''k1'' ''alpha'', exampleDoc ''k3'' ''beta'']"
    by (simp add: isBlank_def isWhiteSpace_def exampleDoc_def)
  have f2: "filter (\<lambda>d. \<not> isBlank (doc_content d)) ?batch2 = ?batch2"
    by (simp add: isBlank_def isWhiteSpace_def exampleDoc_def)
  obtain recs1 n1 where
    h1: "getEmbeddingsForDocuments (placeholderProvider (\<lambda>i. 0)) ?batch1 0 = (Inr recs1, n1)"
        "\<forall>r \<in> set recs1. length (rec_values r) = 1536 \<and> length (rec_values r) = indexDimension"
        "map rec_id recs1 = map doc_id [exampleDoc ''k1'' ''alpha'', exampleDoc ''k3'' ''beta'']"
    using records_have_index_dimension_and_document_id [THEN conjunct1, of "\<lambda>i. 0" ?batch1 0]
    unfolding f1 by blast
  obtain recs2 n2 where
    h2: "getEmbeddingsForDocuments (placeholderProvider (\<lambda>i. 1)) ?batch2 n1 = (Inr recs2, n2)"
        "map rec_id recs2 = map doc_id ?batch2"
    using records_have_index_dimension_and_document_id [THEN conjunct1, of "\<lambda>i. 1" ?batch2 n1]
    unfolding f2 by blast
  have ids1: "map rec_id recs1 = [''k1'', ''k3'']"
    using h1(3) by (simp add: exampleDoc_def)
  have ids2: "map rec_id recs2 = [''k4'']"
    using h2(2) by (simp add: exampleDoc_def)
  have in1: "hd recs1 \<in> set recs1"
    using ids1 by (cases recs1) simp_all
  have in2: "hd recs2 \<in> set recs2"
    using ids2 by (cases recs2) simp_all
  have len: "length (rec_values (hd recs1)) = 1536"
    using h1(2) in1 by blast
  have same: "length (rec_values (hd recs1)) = length (rec_values (hd recs2))"
    using records_have_index_dimension_and_document_id
      [THEN conjunct2, of "\<lambda>i. 0" ?batch1 0 recs1 n1 "\<lambda>i. 1" ?batch2 n1 recs2 n2 "hd recs1" "hd recs2"]
      h1(1) h2(1) in1 in2
    by blast
  show ?thesis
    by (rule exI [of _ recs1], rule exI [of _ n1], rule exI [of _ recs2], rule exI [of _ n2])
       (intro conjI h1(1) h2(1) ids1 ids2 len same)
qed

section \<open>The vector index\<close>

text \<open>
  C10. When the index handle is not set, \<open>upsertVectors\<close> returns normally, leaves the
  service as it is and does not call the index; its result is the result of a call that
  upserted.
\<close>

theorem upsertVectors_uninitialised_is_silent:
  "index svc = None \<longrightarrow>
     upsertVectors upsert svc vectors = (Inr (), svc)
     \<and> (index svc' = Some ix \<and> upsert ix vectors = Inr ix' \<longrightarrow>
          fst (upsertVectors upsert svc' vectors) = fst (upsertVectors upsert svc vectors))"
  by (simp add: upsertVectors_def)

theorem upsertVectors_uninitialised_is_silent_witness:
  "upsertVectors exampleUpsert \<lparr>index = None\<rparr>
     [\<lparr>rec_id = ''k'', rec_values = [0], rec_metadata = []\<rparr>] = (Inr (), \<lparr>index = None\<rparr>)
   \<and> fst (upsertVectors exampleUpsert \<lparr>index = Some []\<rparr>
           [\<lparr>rec_id = ''k'', rec_values = [0], rec_metadata = []\<rparr>]) = Inr ()"
  using upsertVectors_uninitialised_is_silent
    [of "\<lparr>index = None\<rparr>" exampleUpsert
        "[\<lparr>rec_id = ''k'', rec_values = [0], rec_metadata = []\<rparr>]" "\<lparr>index = Some []\<rparr>" "[]"
        "[\<lparr>rec_id = ''k'', rec_values = [0], rec_metadata = []\<rparr>]"]
  by (simp add: exampleUpsert_def)

section \<open>The document parser\<close>

lemma map_of_assign: "map_of (assign k v m) k' = (if k' = k then Some v else map_of m k')"
  by (induction m) auto

lemma includes_str_Nil: "includes_str s []"
  by (cases s) (simp_all add: startsWith_def)

lemma startsWith_append:
  assumes "startsWith s q"
  shows "startsWith (s @ b) q"
proof -
  have eq: "take (length q) s = q"
    using assms by (simp only: startsWith_def)
  have "length (take (length q) s) = length q"
    by (simp only: eq)
  then have "length q \<le> length s"
    by (simp only: length_take)
  then have "take (length q) (s @ b) = take (length q) s"
    by simp
  then show ?thesis
    by (simp only: startsWith_def eq)
qed

lemma includes_str_append: "includes_str a q \<Longrightarrow> includes_str (a @ b) q"
proof (induction a)
  case Nil
  then show ?case by (simp add: includes_str_Nil)
next
  case (Cons c cs)
  show ?case
  proof (cases "startsWith (c # cs) q")
    case True
    then have "startsWith ((c # cs) @ b) q" by (rule startsWith_append)
    then show ?thesis by simp
  next
    case False
    with Cons show ?thesis by simp
  qed
qed

lemma csvBranch_source:
  "map_of m0 ''source'' = Some x \<Longrightarrow>
   map_of (metadata (csvBranch L placeholder csvString m0)) ''source'' = Some x"
  by (simp add: csvBranch_def Let_def map_of_assign split: sum.splits)

lemma pdfBranch_source:
  "map_of m0 ''source'' = Some x \<Longrightarrow>
   map_of (metadata (pdfBranch L placeholder pdfBuffer m0)) ''source'' = Some x"
  by (simp add: pdfBranch_def map_of_assign split: sum.splits)

lemma parseContentFromString_returns:
  "\<exists>r. parseContentFromString L cont fileName = Inr r
       \<and> map_of (metadata r) ''source'' = Some (MString fileName)"
  by (simp add: parseContentFromString_def Let_def csvBranch_source pdfBranch_source
        split: sum.splits)

lemma parseDocument_source:
  "parseDocument readFile L filePath = Inr r \<Longrightarrow>
   map_of (metadata r) ''source'' = Some (MString (basename filePath))"
  by (auto simp: parseDocument_def Let_def csvBranch_source pdfBranch_source
        split: sum.splits if_splits)

text \<open>Values of the stand-ins at the inputs of the examples.\<close>

lemma ext_examples:
  "toLowerCase (extname ''f.csv'') = ''.csv''"
  "toLowerCase (extname ''f.json'') = ''.json''"
  "toLowerCase (extname ''f.pdf'') = ''.pdf''"
  "toLowerCase (extname ''notes.TXT'') = ''.txt''"
  "toLowerCase (extname ''report.docx'') = ''.docx''"
  "toLowerCase (extname ''/tmp/doc-1-report.docx'') = ''.docx''"
  "toLowerCase (extname ''/tmp/doc-2-f.json'') = ''.json''"
  "basename ''/tmp/doc-2-f.json'' = ''doc-2-f.json''"
  by code_simp+

lemma papa_example:
  "Papa_parse ''a,b\<newline>1,2\<newline>3,4'' =
     Inr \<lparr>csv_data = [JObject [(''a'', JString ''1''), (''b'', JString ''2'')],
                      JObject [(''a'', JString ''3''), (''b'', JString ''4'')]],
          csv_fields = Some [''a'', ''b''], csv_delimiter = '','', csv_errors = []\<rparr>"
  by code_simp

lemma papa_short_row:
  "Papa_parse ''a,b,c\<newline>1,2,3\<newline>4,5'' =
     Inr \<lparr>csv_data = [JObject [(''a'', JString ''1''), (''b'', JString ''2''), (''c'', JString ''3'')],
                      JObject [(''a'', JString ''4''), (''b'', JString ''5'')]],
          csv_fields = Some [''a'', ''b'', ''c''], csv_delimiter = '','',
          csv_errors =
            [JObject [(''type'', JString ''FieldMismatch''), (''code'', JString ''TooFewFields''),
                      (''message'', JString ''Too few fields: expected 3 fields but parsed 2''),
                      (''row'', JNumber 1)]]\<rparr>"
  by code_simp

lemma stringify_examples:
  \<open>JSON_stringify (JObject [(''a'', JString ''1''), (''b'', JString ''2'')]) = ''{"a":"1","b":"2"}''\<close>
  \<open>JSON_stringify (JObject [(''a'', JString ''3''), (''b'', JString ''4'')]) = ''{"a":"3","b":"4"}''\<close>
  \<open>JSON_stringify (JObject [(''a'', JString ''1''), (''b'', JString ''2''), (''c'', JString ''3'')])
     = ''{"a":"1","b":"2","c":"3"}''\<close>
  \<open>JSON_stringify (JObject [(''a'', JString ''4''), (''b'', JString ''5'')]) = ''{"a":"4","b":"5"}''\<close>
  \<open>JSON_stringify (JObject [(''x'', JNumber 1)]) = ''{"x":1}''\<close>
  \<open>JSON_stringify (JArray [JNumber 1, JNumber 2]) = ''[1,2]''\<close>
  \<open>JSON_stringify (JInfinity False) = ''null''\<close>
  by code_simp+

lemma parse_examples:
  \<open>JSON_parse ''{"x":1}'' = Inr (JObject [(''x'', JNumber 1)])\<close>
  \<open>JSON_parse ''[1,2]'' = Inr (JArray [JNumber 1, JNumber 2])\<close>
  \<open>JSON_parse ''{"x":'' = Inl ''Unexpected token in JSON''\<close>
  \<open>JSON_parse ''1e400'' = Inr (JInfinity False)\<close>
  \<open>JSON_parse ''null'' = Inr JNull\<close>
  by code_simp+

lemma pdf_example: "stub_pdfParse ''not a pdf'' = Inl ''Invalid PDF structure''"
  by code_simp

lemma base64_example: "looksLikeBase64 ''not a pdf'' = False"
  by code_simp

lemma nodeLibs_sel:
  "pdfParse nodeLibs = stub_pdfParse" "papaParse nodeLibs = Papa_parse"
  "jsonParse nodeLibs = JSON_parse" "jsonStringify nodeLibs = JSON_stringify"
  "bufferFromBase64 nodeLibs = base64Decode" "bufferFromString nodeLibs = (\<lambda>s. s)"
  "bufferToString nodeLibs = (\<lambda>b. b)"
  by (simp_all add: nodeLibs_def)

text \<open>
  C6. The string-based extractor always returns a document, and its metadata has the
  file name under \<open>source\<close>; whenever the path-based extractor returns a document, its
  metadata has the base name of the path under \<open>source\<close>.
\<close>

theorem metadata_source_is_file_name:
  "(\<exists>r. parseContentFromString L cont fileName = Inr r
        \<and> map_of (metadata r) ''source'' = Some (MString fileName))
   \<and> (parseDocument readFile L filePath = Inr r' \<longrightarrow>
        map_of (metadata r') ''source'' = Some (MString (basename filePath)))"
  using parseContentFromString_returns [of L cont fileName] parseDocument_source [of readFile L filePath r']
  by blast

theorem metadata_source_is_file_name_witness:
  \<open>parseDocument exampleFiles nodeLibs ''/tmp/doc-2-f.json''
     = Inr \<lparr>content = ''[1,2]'', metadata = [(''source'', MString ''doc-2-f.json'')]\<rparr>
   \<and> map_of (metadata \<lparr>content = ''[1,2]'', metadata = [(''source'', MString ''doc-2-f.json'')]\<rparr>)
        ''source'' = Some (MString ''doc-2-f.json'' :: json mval)\<close>
proof -
  have run: \<open>parseDocument exampleFiles nodeLibs ''/tmp/doc-2-f.json''
     = Inr \<lparr>content = ''[1,2]'', metadata = [(''source'', MString ''doc-2-f.json'')]\<rparr>\<close>
    by (simp add: parseDocument_def Let_def exampleFiles_def ext_examples nodeLibs_sel
          parse_examples stringify_examples del: JSON_stringify.simps)
  show ?thesis
    using metadata_source_is_file_name
      [of nodeLibs "[]" "[]" exampleFiles "''/tmp/doc-2-f.json''"
          \<open>\<lparr>content = ''[1,2]'', metadata = [(''source'', MString ''doc-2-f.json'')]\<rparr>\<close>]
      run
    by (simp add: ext_examples)
qed

text \<open>
  C5. For a file whose lower-cased extension is none of \<open>.pdf\<close>, \<open>.csv\<close>, \<open>.txt\<close>, \<open>.json\<close>
  the path-based extractor never returns a document, and fails with \<open>UnsupportedFormat\<close>
  once the file has been read; the string-based extractor returns the content as it is,
  with \<open>source\<close> as the only metadata.
\<close>

theorem unsupported_extension_hard_and_soft:
  "(toLowerCase (extname filePath) \<notin> set [''.pdf'', ''.csv'', ''.txt'', ''.json''] \<longrightarrow>
      (\<exists>e. parseDocument readFile L filePath = Inl e)
      \<and> (readFile filePath = Inr fileBuffer \<longrightarrow>
           parseDocument readFile L filePath
             = Inl (UnsupportedFormat (toLowerCase (extname filePath)))))
   \<and> (toLowerCase (extname fileName) \<notin> set [''.pdf'', ''.csv'', ''.txt'', ''.json''] \<longrightarrow>
      parseContentFromString L cont fileName
        = Inr \<lparr>content = cont, metadata = [(''source'', MString fileName)]\<rparr>)"
  by (auto simp: parseDocument_def parseContentFromString_def Let_def split: sum.splits)

theorem unsupported_extension_hard_and_soft_witness:
  "parseDocument exampleFiles nodeLibs ''/tmp/doc-1-report.docx'' = Inl (UnsupportedFormat ''.docx'')
   \<and> parseContentFromString nodeLibs ''PK'' ''report.docx''
       = Inr \<lparr>content = ''PK'', metadata = [(''source'', MString ''report.docx'')]\<rparr>"
  using unsupported_extension_hard_and_soft
    [of "''/tmp/doc-1-report.docx''" exampleFiles nodeLibs "''PK''" "''report.docx''" "''PK''"]
  by (simp add: ext_examples exampleFiles_def)

text \<open>
  C7. When the CSV parser reads \<open>a,b\n1,2\n3,4\<close> as the header \<open>a\<close>, \<open>b\<close> and two rows
  without errors, extraction under the name \<open>f.csv\<close> gives \<open>rowCount\<close> 2, \<open>fields\<close>
  \<open>["a","b"]\<close> and a text of two lines joined by a newline, the serialisations of the
  first and of the second row.
\<close>

theorem csv_example_rows_and_fields:
  "papaParse L ''a,b\<newline>1,2\<newline>3,4''
     = Inr \<lparr>csv_data = [row1, row2], csv_fields = Some [''a'', ''b''], csv_delimiter = d,
            csv_errors = []\<rparr>
   \<longrightarrow> parseContentFromString L ''a,b\<newline>1,2\<newline>3,4'' ''f.csv''
     = Inr \<lparr>content = jsonStringify L row1 @ ''\<newline>'' @ jsonStringify L row2,
            metadata = [(''source'', MString ''f.csv''), (''rowCount'', MNumber 2),
                        (''fields'', MFields (Some [''a'', ''b''])), (''delimiter'', MString d)]\<rparr>"
  by (simp add: parseContentFromString_def Let_def ext_examples csvBranch_def)

theorem csv_example_rows_and_fields_witness:
  \<open>parseContentFromString nodeLibs ''a,b\<newline>1,2\<newline>3,4'' ''f.csv''
     = Inr \<lparr>content = ''{"a":"1","b":"2"}\<newline>{"a":"3","b":"4"}'',
            metadata = [(''source'', MString ''f.csv''), (''rowCount'', MNumber 2),
                        (''fields'', MFields (Some [''a'', ''b''])), (''delimiter'', MString '','')]\<rparr>\<close>
  using csv_example_rows_and_fields
    [of nodeLibs "JObject [(''a'', JString ''1''), (''b'', JString ''2'')]"
        "JObject [(''a'', JString ''3''), (''b'', JString ''4'')]" "'',''"]
  by (simp add: nodeLibs_sel papa_example stringify_examples del: JSON_stringify.simps)

lemma csv_short_row_run:
  \<open>parseContentFromString nodeLibs ''a,b,c\<newline>1,2,3\<newline>4,5'' ''f.csv''
     = Inr \<lparr>content = ''{"a":"1","b":"2","c":"3"}\<newline>{"a":"4","b":"5"}'',
            metadata =
              [(''source'', MString ''f.csv''), (''rowCount'', MNumber 2),
               (''fields'', MFields (Some [''a'', ''b'', ''c''])), (''delimiter'', MString '',''),
               (''parseErrors'',
                MValues [JObject [(''type'', JString ''FieldMismatch''),
                                  (''code'', JString ''TooFewFields''),
                                  (''message'',
                                   JString ''Too few fields: expected 3 fields but parsed 2''),
                                  (''row'', JNumber 1)]])]\<rparr>\<close>
  by (simp add: parseContentFromString_def Let_def ext_examples csvBranch_def nodeLibs_sel
        papa_short_row stringify_examples del: JSON_stringify.simps)

lemma no_error_word:
  \<open>\<not> includes_str (toLowerCase ''{"a":"1","b":"2","c":"3"}\<newline>{"a":"4","b":"5"}'') ''error''\<close>
  by code_simp

text \<open>
  C3, as the specification states it, fails for \<open>.csv\<close>: a row with too few fields is
  malformed input, the CSV parser reports it without throwing, and the text is the
  serialisation of the rows, which is no placeholder and has no word "error" in it.
\<close>

theorem csv_malformed_row_counterexample:
  \<open>parseContentFromString nodeLibs ''a,b,c\<newline>1,2,3\<newline>4,5'' ''f.csv''
     = Inr \<lparr>content = ''{"a":"1","b":"2","c":"3"}\<newline>{"a":"4","b":"5"}'',
            metadata =
              [(''source'', MString ''f.csv''), (''rowCount'', MNumber 2),
               (''fields'', MFields (Some [''a'', ''b'', ''c''])), (''delimiter'', MString '',''),
               (''parseErrors'',
                MValues [JObject [(''type'', JString ''FieldMismatch''),
                                  (''code'', JString ''TooFewFields''),
                                  (''message'',
                                   JString ''Too few fields: expected 3 fields but parsed 2''),
                                  (''row'', JNumber 1)]])]\<rparr>
   \<and> \<not> includes_str (toLowerCase ''{"a":"1","b":"2","c":"3"}\<newline>{"a":"4","b":"5"}'') ''error''\<close>
  using csv_short_row_run no_error_word by (rule conjI)

text \<open>
  C3, amended. The string-based extractor returns a document for every content and
  file name. For \<open>.pdf\<close>, when the PDF parser throws, the text is the placeholder
  \<open>Failed to parse PDF content. Error: \<close> followed by the parser's message, which has
  the word \<open>Error\<close> in it. For \<open>.csv\<close>, the text is the placeholder
  \<open>Failed to parse CSV content. Error: \<close> followed by the message when the CSV parser
  throws; when the parser returns with errors, the text is the serialisation of the rows
  it returns, joined by newlines, and the errors are stored under \<open>parseErrors\<close>.
\<close>

theorem string_extractor_soft_failures:
  "(\<exists>r. parseContentFromString L cont fileName = Inr r)
   \<and> (toLowerCase (extname fileName) = ''.pdf''
        \<and> pdfParse L (if looksLikeBase64 cont then bufferFromBase64 L cont
                       else bufferFromString L cont) = Inl message
      \<longrightarrow> parseContentFromString L cont fileName
            = Inr \<lparr>content = ''Failed to parse PDF content. Error: '' @ message,
                   metadata = [(''source'', MString fileName)]\<rparr>
          \<and> includes_str (''Failed to parse PDF content. Error: '' @ message) ''Error'')
   \<and> (toLowerCase (extname fileName) = ''.csv'' \<and> papaParse L cont = Inl message
      \<longrightarrow> parseContentFromString L cont fileName
            = Inr \<lparr>content = ''Failed to parse CSV content. Error: '' @ message,
                   metadata = [(''source'', MString fileName)]\<rparr>
          \<and> includes_str (''Failed to parse CSV content. Error: '' @ message) ''Error'')
   \<and> (toLowerCase (extname fileName) = ''.csv'' \<and> papaParse L cont = Inr csvData
        \<and> csv_errors csvData \<noteq> []
      \<longrightarrow> (\<exists>r. parseContentFromString L cont fileName = Inr r
               \<and> content r = join ''\<newline>'' (map (jsonStringify L) (csv_data csvData))
               \<and> map_of (metadata r) ''parseErrors'' = Some (MValues (csv_errors csvData))))"
proof (intro conjI impI)
  show "\<exists>r. parseContentFromString L cont fileName = Inr r"
    using parseContentFromString_returns [of L cont fileName] by blast
next
  assume "toLowerCase (extname fileName) = ''.pdf''
        \<and> pdfParse L (if looksLikeBase64 cont then bufferFromBase64 L cont
                       else bufferFromString L cont) = Inl message"
  then show "parseContentFromString L cont fileName
            = Inr \<lparr>content = ''Failed to parse PDF content. Error: '' @ message,
                   metadata = [(''source'', MString fileName)]\<rparr>"
    by (simp add: parseContentFromString_def Let_def pdfBranch_def)
next
  have "includes_str ''Failed to parse PDF content. Error: '' ''Error''"
    by code_simp
  then show "includes_str (''Failed to parse PDF content. Error: '' @ message) ''Error''"
    by (rule includes_str_append)
next
  assume "toLowerCase (extname fileName) = ''.csv'' \<and> papaParse L cont = Inl message"
  then show "parseContentFromString L cont fileName
            = Inr \<lparr>content = ''Failed to parse CSV content. Error: '' @ message,
                   metadata = [(''source'', MString fileName)]\<rparr>"
    by (simp add: parseContentFromString_def Let_def csvBranch_def)
next
  have "includes_str ''Failed to parse CSV content. Error: '' ''Error''"
    by code_simp
  then show "includes_str (''Failed to parse CSV content. Error: '' @ message) ''Error''"
    by (rule includes_str_append)
next
  assume "toLowerCase (extname fileName) = ''.csv'' \<and> papaParse L cont = Inr csvData
        \<and> csv_errors csvData \<noteq> []"
  then show "\<exists>r. parseContentFromString L cont fileName = Inr r
               \<and> content r = join ''\<newline>'' (map (jsonStringify L) (csv_data csvData))
               \<and> map_of (metadata r) ''parseErrors'' = Some (MValues (csv_errors csvData))"
    by (simp add: parseContentFromString_def Let_def csvBranch_def map_of_assign)
qed

theorem string_extractor_soft_failures_witness:
  \<open>parseContentFromString nodeLibs ''not a pdf'' ''f.pdf''
     = Inr \<lparr>content = ''Failed to parse PDF content. Error: Invalid PDF structure'',
            metadata = [(''source'', MString ''f.pdf'')]\<rparr>
   \<and> parseContentFromString throwingCsvLibs ''a,b'' ''f.csv''
     = Inr \<lparr>content = ''Failed to parse CSV content. Error: out of memory'',
            metadata = [(''source'', MString ''f.csv'')]\<rparr>
   \<and> (\<exists>r. parseContentFromString nodeLibs ''a,b,c\<newline>1,2,3\<newline>4,5'' ''f.csv'' = Inr r
        \<and> content r = ''{"a":"1","b":"2","c":"3"}\<newline>{"a":"4","b":"5"}''
        \<and> map_of (metadata r) ''parseErrors''
            = Some (MValues [JObject [(''type'', JString ''FieldMismatch''),
                                      (''code'', JString ''TooFewFields''),
                                      (''message'',
                                       JString ''Too few fields: expected 3 fields but parsed 2''),
                                      (''row'', JNumber 1)]]))\<close>
proof -
  have pdf: \<open>parseContentFromString nodeLibs ''not a pdf'' ''f.pdf''
     = Inr \<lparr>content = ''Failed to parse PDF content. Error: Invalid PDF structure'',
            metadata = [(''source'', MString ''f.pdf'')]\<rparr>\<close>
    using string_extractor_soft_failures
      [of nodeLibs "''not a pdf''" "''f.pdf''" "''Invalid PDF structure''"]
    by (simp add: ext_examples nodeLibs_sel base64_example pdf_example)
  have csv1: \<open>parseContentFromString throwingCsvLibs ''a,b'' ''f.csv''
     = Inr \<lparr>content = ''Failed to parse CSV content. Error: out of memory'',
            metadata = [(''source'', MString ''f.csv'')]\<rparr>\<close>
    using string_extractor_soft_failures
      [of throwingCsvLibs "''a,b''" "''f.csv''" "''out of memory''"]
    by (simp add: ext_examples throwingCsvLibs_def)
  have csv2: \<open>\<exists>r. parseContentFromString nodeLibs ''a,b,c\<newline>1,2,3\<newline>4,5'' ''f.csv'' = Inr r
        \<and> content r = ''{"a":"1","b":"2","c":"3"}\<newline>{"a":"4","b":"5"}''
        \<and> map_of (metadata r) ''parseErrors''
            = Some (MValues [JObject [(''type'', JString ''FieldMismatch''),
                                      (''code'', JString ''TooFewFields''),
                                      (''message'',
                                       JString ''Too few fields: expected 3 fields but parsed 2''),
                                      (''row'', JNumber 1)]])\<close>
    using string_extractor_soft_failures
      [of nodeLibs "''a,b,c\<newline>1,2,3\<newline>4,5''" "''f.csv''" "[]"
          "\<lparr>csv_data = [JObject [(''a'', JString ''1''), (''b'', JString ''2''), (''c'', JString ''3'')],
                      JObject [(''a'', JString ''4''), (''b'', JString ''5'')]],
          csv_fields = Some [''a'', ''b'', ''c''], csv_delimiter = '','',
          csv_errors =
            [JObject [(''type'', JString ''FieldMismatch''), (''code'', JString ''TooFewFields''),
                      (''message'', JString ''Too few fields: expected 3 fields but parsed 2''),
                      (''row'', JNumber 1)]]\<rparr>"]
    by (simp add: ext_examples nodeLibs_sel papa_short_row stringify_examples
          del: JSON_stringify.simps)
  from pdf csv1 csv2 show ?thesis by (intro conjI)
qed

section \<open>JSON: parsing what was serialised\<close>



















lemma hexValue_hexChar: "d < 16 \<Longrightarrow> hexValue (hexChar d) = Some d"
  by (simp add: hexValue_def hexChar_def Let_def)

lemma hexValue_zero: "hexValue (CHR ''0'') = Some 0"
  by (simp add: hexValue_def)

lemma char_of_code: "(of_char c :: nat) = n \<Longrightarrow> c = char_of n"
  by auto

lemma parseStringBody_escape:
  "unescape e = Some x \<Longrightarrow> e \<noteq> CHR ''u'' \<Longrightarrow>
     parseStringBody (CHR 0x5C # e # s) = consBody x (parseStringBody s)"
  by simp

lemma parseStringBody_unicode:
  assumes "n < 32"
  shows "parseStringBody (CHR 0x5C # CHR ''u'' # CHR ''0'' # CHR ''0'' # hexChar (n div 16) # hexChar (n mod 16) # s)
           = consBody (char_of n) (parseStringBody s)"
proof -
  have "n div 16 < 16" using assms by simp
  then have a: "hexValue (hexChar (n div 16)) = Some (n div 16)" by (rule hexValue_hexChar)
  have b: "hexValue (hexChar (n mod 16)) = Some (n mod 16)" by (rule hexValue_hexChar) simp
  show ?thesis by (simp add: a b hexValue_zero)
qed

lemma parseStringBody_plain:
  "c \<noteq> CHR 0x22 \<Longrightarrow> c \<noteq> CHR 0x5C \<Longrightarrow> \<not> (of_char c :: nat) < 32 \<Longrightarrow>
     parseStringBody (c # s) = consBody c (parseStringBody s)"
  by simp

lemma parseStringBody_quoteChar:
  "parseStringBody (quoteChar c @ s) = consBody c (parseStringBody s)"
proof -
  consider (quote) "c = CHR 0x22" | (backslash) "c = CHR 0x5C"
    | (b) "(of_char c :: nat) = 8" | (f) "(of_char c :: nat) = 12" | (n) "(of_char c :: nat) = 10"
    | (r) "(of_char c :: nat) = 13" | (t) "(of_char c :: nat) = 9"
    | (control) "c \<noteq> CHR 0x22" "c \<noteq> CHR 0x5C" "(of_char c :: nat) \<notin> {8, 12, 10, 13, 9}" "(of_char c :: nat) < 32"
    | (plain) "c \<noteq> CHR 0x22" "c \<noteq> CHR 0x5C" "\<not> (of_char c :: nat) < 32"
    by fastforce
  then show ?thesis
  proof cases
    case quote
    then show ?thesis by (simp add: quoteChar_def unescape_def)
  next
    case backslash
    then show ?thesis by (simp add: quoteChar_def unescape_def)
  next
    case b
    then have "(of_char c :: nat) = of_char (CHR 0x08)" by simp
    then have "c = CHR 0x08" by (simp only: of_char_eq_iff)
    then show ?thesis by (simp add: quoteChar_def unescape_def)
  next
    case f
    then have "(of_char c :: nat) = of_char (CHR 0x0C)" by simp
    then have "c = CHR 0x0C" by (simp only: of_char_eq_iff)
    then show ?thesis by (simp add: quoteChar_def unescape_def)
  next
    case n
    then have "(of_char c :: nat) = of_char (CHR 0x0A)" by simp
    then have "c = CHR 0x0A" by (simp only: of_char_eq_iff)
    then show ?thesis by (simp add: quoteChar_def unescape_def)
  next
    case r
    then have "(of_char c :: nat) = of_char (CHR 0x0D)" by simp
    then have "c = CHR 0x0D" by (simp only: of_char_eq_iff)
    then show ?thesis by (simp add: quoteChar_def unescape_def)
  next
    case t
    then have "(of_char c :: nat) = of_char (CHR 0x09)" by simp
    then have "c = CHR 0x09" by (simp only: of_char_eq_iff)
    then show ?thesis by (simp add: quoteChar_def unescape_def)
  next
    case control
    have q: "quoteChar c = [CHR 0x5C, CHR ''u'', CHR ''0'', CHR ''0'',
                            hexChar (of_char c div 16), hexChar (of_char c mod 16)]"
      using control by (simp add: quoteChar_def Let_def)
    have "char_of (of_char c :: nat) = c" by simp
    then show ?thesis
      using parseStringBody_unicode [OF control(4), of s] by (simp only: q append.simps)
  next
    case plain
    have q: "quoteChar c = [c]"
      using plain by (auto simp add: quoteChar_def Let_def)
    show ?thesis
      using parseStringBody_plain [OF plain, of s] by (simp only: q append.simps)
  qed
qed

lemma parseStringBody_close: "parseStringBody (CHR 0x22 # rest) = Some ([], rest)"
  by simp

lemma parseStringBody_quoted:
  "parseStringBody (concat (map quoteChar s) @ CHR 0x22 # rest) = Some (s, rest)"
  by (induction s) (simp_all add: parseStringBody_quoteChar parseStringBody_close consBody_def del: parseStringBody.simps(2))

lemma parseStringBody_quoteJSONString:
  "parseStringBody (drop 1 (quoteJSONString s @ rest)) = Some (s, rest)"
  using parseStringBody_quoted [of s rest] by (simp add: quoteJSONString_def)


















































section \<open>Locators\<close>

lemma url_examples:
  "URL_new ''https://bucket.s3.us-east-1.domain/path/to/file.pdf''
     = Some \<lparr>protocol = ''https:'', hostname = ''bucket.s3.us-east-1.domain'',
             pathname = ''/path/to/file.pdf''\<rparr>"
  "URL_new ''s3://bucket/path/to/file.pdf''
     = Some \<lparr>protocol = ''s3:'', hostname = ''bucket'', pathname = ''/path/to/file.pdf''\<rparr>"
  "URL_new ''https://custom.domain/path/to/file.pdf''
     = Some \<lparr>protocol = ''https:'', hostname = ''custom.domain'',
             pathname = ''/path/to/file.pdf''\<rparr>"
  "URL_new ''https://bucket.s3.amazonaws.com/''
     = Some \<lparr>protocol = ''https:'', hostname = ''bucket.s3.amazonaws.com'', pathname = ''/''\<rparr>"
  "URL_new ''s3://bucket/path/to/empty.txt''
     = Some \<lparr>protocol = ''s3:'', hostname = ''bucket'', pathname = ''/path/to/empty.txt''\<rparr>"
  "URL_new ''s3://bucket/path/to/notes.txt''
     = Some \<lparr>protocol = ''s3:'', hostname = ''bucket'', pathname = ''/path/to/notes.txt''\<rparr>"
  by code_simp+

lemma s3KeyOfUrl_pathname:
  "s3KeyOfUrl u = (if startsWith (pathname u) ''/'' then drop 1 (pathname u) else pathname u)"
  by (simp add: s3KeyOfUrl_def)

lemma basename_examples:
  "basename ''path/to/file.pdf'' = ''file.pdf''"
  "basename ''path/to/empty.txt'' = ''empty.txt''"
  "basename ''path/to/notes.txt'' = ''notes.txt''"
  "toLowerCase (extname ''empty.txt'') = ''.txt''"
  "toLowerCase (extname ''notes.txt'') = ''.txt''"
  by code_simp+

lemma key_of_path_to_file: "pathname u = ''/path/to/file.pdf'' \<Longrightarrow> s3KeyOfUrl u = ''path/to/file.pdf''"
  by (simp add: s3KeyOfUrl_pathname startsWith_def)

lemma download_path_to_file:
  "ctor url = Some u \<Longrightarrow> pathname u = ''/path/to/file.pdf'' \<Longrightarrow>
   downloadFileContentFromUrl ctor svc url =
     (case getFileContentAsString svc ''path/to/file.pdf'' of
        Inl e \<Rightarrow> Inl e
      | Inr c \<Rightarrow> Inr \<lparr>dl_content = c, s3Key = ''path/to/file.pdf'',
                      originalFileName = ''file.pdf''\<rparr>)"
  by (simp add: downloadFileContentFromUrl_def Let_def key_of_path_to_file basename_examples
        split: sum.splits)

lemma exampleS3_objects:
  "getFileContentAsString exampleS3 ''path/to/file.pdf'' = Inr ''%PDF-1.4''"
  "getFileContentAsString exampleS3 ''path/to/empty.txt'' = Inr []"
  "getFileContentAsString exampleS3 ''path/to/notes.txt'' = Inr ''hello''"
  by (simp_all add: getFileContentAsString_def getObject_def exampleS3_def exampleBucket_def)

text \<open>
  C2. Each of the three URLs gives the key \<open>path/to/file.pdf\<close>: the download returns
  the content stored under that key, with the key and the file name \<open>file.pdf\<close>, or the
  storage's error. The key is the path name without its leading slash, whatever the
  host and the protocol. A URL that parses and gives the empty key fails with
  \<open>InvalidLocator\<close>, and storage is not asked.
\<close>

theorem locator_parsing_yields_key:
  "downloadFileContentFromUrl URL_new svc ''https://bucket.s3.us-east-1.domain/path/to/file.pdf''
     = (case getFileContentAsString svc ''path/to/file.pdf'' of
          Inl e \<Rightarrow> Inl e
        | Inr c \<Rightarrow> Inr \<lparr>dl_content = c, s3Key = ''path/to/file.pdf'',
                        originalFileName = ''file.pdf''\<rparr>)
   \<and> downloadFileContentFromUrl URL_new svc ''s3://bucket/path/to/file.pdf''
     = (case getFileContentAsString svc ''path/to/file.pdf'' of
          Inl e \<Rightarrow> Inl e
        | Inr c \<Rightarrow> Inr \<lparr>dl_content = c, s3Key = ''path/to/file.pdf'',
                        originalFileName = ''file.pdf''\<rparr>)
   \<and> downloadFileContentFromUrl URL_new svc ''https://custom.domain/path/to/file.pdf''
     = (case getFileContentAsString svc ''path/to/file.pdf'' of
          Inl e \<Rightarrow> Inl e
        | Inr c \<Rightarrow> Inr \<lparr>dl_content = c, s3Key = ''path/to/file.pdf'',
                        originalFileName = ''file.pdf''\<rparr>)
   \<and> s3KeyOfUrl u = (if startsWith (pathname u) ''/'' then drop 1 (pathname u) else pathname u)
   \<and> (ctor url = Some u \<and> s3KeyOfUrl u = [] \<longrightarrow>
        downloadFileContentFromUrl ctor svc url = Inl InvalidLocator)"
proof (intro conjI impI)
  show "downloadFileContentFromUrl URL_new svc ''https://bucket.s3.us-east-1.domain/path/to/file.pdf''
     = (case getFileContentAsString svc ''path/to/file.pdf'' of
          Inl e \<Rightarrow> Inl e
        | Inr c \<Rightarrow> Inr \<lparr>dl_content = c, s3Key = ''path/to/file.pdf'',
                        originalFileName = ''file.pdf''\<rparr>)"
    using url_examples(1) by (rule download_path_to_file) simp
next
  show "downloadFileContentFromUrl URL_new svc ''s3://bucket/path/to/file.pdf''
     = (case getFileContentAsString svc ''path/to/file.pdf'' of
          Inl e \<Rightarrow> Inl e
        | Inr c \<Rightarrow> Inr \<lparr>dl_content = c, s3Key = ''path/to/file.pdf'',
                        originalFileName = ''file.pdf''\<rparr>)"
    using url_examples(2) by (rule download_path_to_file) simp
next
  show "downloadFileContentFromUrl URL_new svc ''https://custom.domain/path/to/file.pdf''
     = (case getFileContentAsString svc ''path/to/file.pdf'' of
          Inl e \<Rightarrow> Inl e
        | Inr c \<Rightarrow> Inr \<lparr>dl_content = c, s3Key = ''path/to/file.pdf'',
                        originalFileName = ''file.pdf''\<rparr>)"
    using url_examples(3) by (rule download_path_to_file) simp
next
  show "s3KeyOfUrl u = (if startsWith (pathname u) ''/'' then drop 1 (pathname u) else pathname u)"
    by (rule s3KeyOfUrl_pathname)
next
  assume "ctor url = Some u \<and> s3KeyOfUrl u = []"
  then show "downloadFileContentFromUrl ctor svc url = Inl InvalidLocator"
    by (simp add: downloadFileContentFromUrl_def Let_def)
qed

theorem locator_parsing_yields_key_witness:
  "downloadFileContentFromUrl URL_new exampleS3 ''https://bucket.s3.us-east-1.domain/path/to/file.pdf''
     = Inr \<lparr>dl_content = ''%PDF-1.4'', s3Key = ''path/to/file.pdf'', originalFileName = ''file.pdf''\<rparr>
   \<and> downloadFileContentFromUrl URL_new exampleS3 ''s3://bucket/path/to/file.pdf''
     = Inr \<lparr>dl_content = ''%PDF-1.4'', s3Key = ''path/to/file.pdf'', originalFileName = ''file.pdf''\<rparr>
   \<and> downloadFileContentFromUrl URL_new exampleS3 ''https://custom.domain/path/to/file.pdf''
     = Inr \<lparr>dl_content = ''%PDF-1.4'', s3Key = ''path/to/file.pdf'', originalFileName = ''file.pdf''\<rparr>
   \<and> downloadFileContentFromUrl URL_new exampleS3 ''https://bucket.s3.amazonaws.com/''
     = Inl InvalidLocator"
  using locator_parsing_yields_key
    [of exampleS3
        "\<lparr>protocol = ''https:'', hostname = ''bucket.s3.amazonaws.com'', pathname = ''/''\<rparr>"
        URL_new "''https://bucket.s3.amazonaws.com/''"]
  by (simp add: exampleS3_objects url_examples startsWith_def)

section \<open>The orchestrator\<close>


















end
